theory Spec2Isabelle
  imports Complex_Main
begin

section \<open>The annotation service of \<^verbatim>\<open>src/spacy-service/app.py\<close>\<close>

text \<open>
  The service is one request handler, \<^verbatim>\<open>process\<close>, in front of a spaCy pipeline. The
  pipeline, the web framework and the validation library are not part of the repository:
  the pipeline is a parameter of the model, and of the framework only what the handler's
  declarations rely on is written down (a required \<^verbatim>\<open>str\<close> field, optional
  \<^verbatim>\<open>bool\<close> fields with a default, validation of the body before the handler runs).
\<close>

subsection \<open>Python values\<close>

text \<open>
  \<^verbatim>\<open>x or y\<close> on strings: the first operand when it is non-empty, else the second.
\<close>

definition str_or :: "string \<Rightarrow> string \<Rightarrow> string" where
  "str_or a b = (if a \<noteq> [] then a else b)"

text \<open>
  Truth value of an \<^verbatim>\<open>Optional[bool]\<close>: \<^verbatim>\<open>None\<close> is false.
\<close>

definition truthy :: "bool option \<Rightarrow> bool" where
  "truthy b = (case b of None \<Rightarrow> False | Some v \<Rightarrow> v)"

text \<open>
  \<^verbatim>\<open>str.lower\<close> and \<^verbatim>\<open>str.upper\<close> are the language's Unicode case mappings, not
  per-character maps of the letters \<^verbatim>\<open>A\<close> to \<^verbatim>\<open>Z\<close>: accented letters are mapped too,
  and a mapping can change the length of a string (the upper case of the sharp s is
  \<^verbatim>\<open>"SS"\<close>). They are not part of the repository, so the handler is modelled for any
  pair of functions \<open>lower\<close> and \<open>upper\<close> on strings, which it receives as its first two
  arguments.
\<close>

subsection \<open>Configuration\<close>

text \<open>
  \<^verbatim>\<open>INTERNAL_KEY = os.getenv("SPACY_INTERNAL_KEY", "")\<close>, read once when the module is
  loaded.
\<close>

definition getenv :: "(string \<rightharpoonup> string) \<Rightarrow> string \<Rightarrow> string \<Rightarrow> string" where
  "getenv environ name dflt = (case environ name of None \<Rightarrow> dflt | Some v \<Rightarrow> v)"

definition INTERNAL_KEY :: "(string \<rightharpoonup> string) \<Rightarrow> string" where
  "INTERNAL_KEY environ = getenv environ ''SPACY_INTERNAL_KEY'' ''''"

subsection \<open>What the handler reads of a parsed document\<close>

text \<open>
  A token carries \<^verbatim>\<open>t.text\<close>, \<^verbatim>\<open>t.lemma_\<close>, \<^verbatim>\<open>t.pos_\<close>, \<^verbatim>\<open>t.dep_\<close> and \<^verbatim>\<open>t.head\<close>
  (the fields \<open>t_text\<close>, \<open>t_lemma\<close>, \<open>t_pos\<close>, \<open>t_dep\<close>, \<open>t_head\<close>). The handler reads
  only \<^verbatim>\<open>t.head.i\<close> of the head, after testing \<^verbatim>\<open>t.head is not None\<close>: \<open>t_head\<close> is
  \<open>None\<close> for \<^verbatim>\<open>t.head is None\<close> and \<open>Some k\<close> when \<^verbatim>\<open>t.head.i\<close> is \<open>k\<close>. In the documents
  spaCy builds every token has a head: a token that no other token governs (the root of a
  sentence, or any token of a document without a parse) is its own head.
\<close>

record Token =
  t_text :: string
  t_lemma :: string
  t_pos :: string
  t_dep :: string
  t_head :: "nat option"

record Span =
  start_char :: nat
  end_char :: nat

text \<open>
  A document: its tokens in iteration order, \<^verbatim>\<open>doc.sents\<close>, and the answer of
  \<^verbatim>\<open>doc.has_annotation("SENT_START")\<close>.
\<close>

record Doc =
  doc_tokens :: "Token list"
  doc_sents :: "Span list"
  has_annotation_SENT_START :: bool

subsection \<open>Request and response\<close>

text \<open>
  \<^verbatim>\<open>class ProcessBody(BaseModel)\<close>: \<^verbatim>\<open>text: str\<close> and three \<^verbatim>\<open>Optional[bool] = True\<close>
  flags.
\<close>

record ProcessBody =
  body_text :: string
  wantTokens :: "bool option"
  wantSents :: "bool option"
  wantDeps :: "bool option"

text \<open>
  The dictionaries of the response, one record per dictionary shape. The two scores are
  the literals \<^verbatim>\<open>0.0\<close> and \<^verbatim>\<open>0.1\<close>, kept as the numbers they denote.
\<close>

record token_record =
  tr_text :: string
  tr_lemma :: string
  tr_pos :: string
  tr_i :: nat

record sentence_span =
  span_start :: nat
  span_end :: nat

record dependency_edge =
  edge_i :: nat
  edge_head :: "nat option"
  edge_dep :: string

record sarcasm_obj =
  present :: bool
  sarcasm_score :: real

record context_obj =
  label :: string
  context_score :: real

text \<open>\<^verbatim>\<open>{"hits": []}\<close>: the list is always empty, so its element type is immaterial.\<close>

record phraseEdges_obj =
  hits :: "string list"

record response =
  tokens :: "token_record list"
  sents :: "sentence_span list"
  deps :: "dependency_edge list"
  sarcasm :: sarcasm_obj
  context_field :: context_obj
  phraseEdges :: phraseEdges_obj

text \<open>
  How a call can fail: the handler's own \<^verbatim>\<open>HTTPException(status_code, detail)\<close>, the
  framework's rejection of a body that does not fit \<^verbatim>\<open>ProcessBody\<close>, and an exception
  raised by the pipeline, which the handler does not catch.
\<close>

datatype error =
  HTTPException nat string
| RequestValidationError
| PipelineError

subsection \<open>The handler\<close>

text \<open>Lines 35 to 38: the three comprehensions over the parsed document.\<close>

definition tokens_of ::
  "(string \<Rightarrow> string) \<Rightarrow> (string \<Rightarrow> string) \<Rightarrow> Doc \<Rightarrow> ProcessBody
     \<Rightarrow> token_record list" where
  "tokens_of lower upper doc body =
     (if truthy (wantTokens body)
      then map (\<lambda>(i, t). \<lparr>tr_text = t_text t,
                          tr_lemma = lower (str_or (t_lemma t) (t_text t)),
                          tr_pos = upper (str_or (t_pos t) ''X''),
                          tr_i = i\<rparr>)
               (enumerate 0 (doc_tokens doc))
      else [])"

definition sents_of :: "Doc \<Rightarrow> ProcessBody \<Rightarrow> sentence_span list" where
  "sents_of doc body =
     (if truthy (wantSents body) \<and> has_annotation_SENT_START doc
      then map (\<lambda>s. \<lparr>span_start = start_char s, span_end = end_char s\<rparr>) (doc_sents doc)
      else if truthy (wantSents body)
      then [\<lparr>span_start = 0, span_end = length (str_or (body_text body) '''')\<rparr>]
      else [])"

definition deps_of :: "Doc \<Rightarrow> ProcessBody \<Rightarrow> dependency_edge list" where
  "deps_of doc body =
     (if truthy (wantDeps body)
      then map (\<lambda>(i, t). \<lparr>edge_i = i,
                          edge_head = (case t_head t of Some h \<Rightarrow> Some h | None \<Rightarrow> None),
                          edge_dep = t_dep t\<rparr>)
               (enumerate 0 (doc_tokens doc))
      else [])"

text \<open>Lines 41 to 48: the returned dictionary.\<close>

definition respond ::
  "(string \<Rightarrow> string) \<Rightarrow> (string \<Rightarrow> string) \<Rightarrow> Doc \<Rightarrow> ProcessBody \<Rightarrow> response" where
  "respond lower upper doc body =
     \<lparr>tokens = tokens_of lower upper doc body,
      sents = sents_of doc body,
      deps = deps_of doc body,
      sarcasm = \<lparr>present = False, sarcasm_score = 0\<rparr>,
      context_field = \<lparr>label = ''general'', context_score = 1 / 10\<rparr>,
      phraseEdges = \<lparr>hits = []\<rparr>\<rparr>"

text \<open>
  \<^verbatim>\<open>process(req, body)\<close>. The arguments are the two case mappings, the module's
  \<^verbatim>\<open>INTERNAL_KEY\<close>, the pipeline
  \<^verbatim>\<open>nlp\<close> (\<open>None\<close> when it raises), the request headers and the validated body. The first
  component of the result lists the texts handed to \<^verbatim>\<open>nlp\<close> during the call, the second
  is the error raised or the dictionary returned.
\<close>

definition process ::
  "(string \<Rightarrow> string) \<Rightarrow> (string \<Rightarrow> string) \<Rightarrow> string \<Rightarrow> (string \<Rightarrow> Doc option)
     \<Rightarrow> (string \<rightharpoonup> string) \<Rightarrow> ProcessBody
     \<Rightarrow> string list \<times> (error + response)" where
  "process lower upper key nlp headers body =
     (if key \<noteq> [] \<and> headers ''x-internal-key'' \<noteq> Some key
      then ([], Inl (HTTPException 401 ''unauthorized''))
      else
        (let txt = str_or (body_text body) '''' in
         case nlp txt of
           None \<Rightarrow> ([txt], Inl PipelineError)
         | Some doc \<Rightarrow> ([txt], Inr (respond lower upper doc body))))"

subsection \<open>The body before validation\<close>

text \<open>
  A field of the JSON body is absent, \<^verbatim>\<open>null\<close>, or holds a value of the declared type.
  \<^verbatim>\<open>text: str\<close> has no default and does not admit \<^verbatim>\<open>None\<close>: the field is required.
  \<^verbatim>\<open>Optional[bool] = True\<close> takes \<^verbatim>\<open>True\<close> when the field is absent and \<^verbatim>\<open>None\<close> when
  it is \<^verbatim>\<open>null\<close>. Values of other types are outside this model.
\<close>

datatype 'a field = Absent | Null | Given 'a

record json_body =
  json_text :: "string field"
  json_wantTokens :: "bool field"
  json_wantSents :: "bool field"
  json_wantDeps :: "bool field"

definition required_str :: "string field \<Rightarrow> error + string" where
  "required_str f =
     (case f of Absent \<Rightarrow> Inl RequestValidationError
              | Null \<Rightarrow> Inl RequestValidationError
              | Given s \<Rightarrow> Inr s)"

definition optional_bool :: "bool \<Rightarrow> bool field \<Rightarrow> bool option" where
  "optional_bool dflt f = (case f of Absent \<Rightarrow> Some dflt | Null \<Rightarrow> None | Given b \<Rightarrow> Some b)"

definition validate_body :: "json_body \<Rightarrow> error + ProcessBody" where
  "validate_body j =
     (case required_str (json_text j) of
        Inl e \<Rightarrow> Inl e
      | Inr s \<Rightarrow> Inr \<lparr>body_text = s,
                      wantTokens = optional_bool True (json_wantTokens j),
                      wantSents = optional_bool True (json_wantSents j),
                      wantDeps = optional_bool True (json_wantDeps j)\<rparr>)"

text \<open>
  \<^verbatim>\<open>@app.post("/process")\<close>: the framework validates the body against
  \<^verbatim>\<open>ProcessBody\<close> and calls the handler only with a valid one.
\<close>

definition post_process ::
  "(string \<Rightarrow> string) \<Rightarrow> (string \<Rightarrow> string) \<Rightarrow> string \<Rightarrow> (string \<Rightarrow> Doc option)
     \<Rightarrow> (string \<rightharpoonup> string) \<Rightarrow> json_body
     \<Rightarrow> string list \<times> (error + response)" where
  "post_process lower upper key nlp headers j =
     (case validate_body j of
        Inl e \<Rightarrow> ([], Inl e)
      | Inr body \<Rightarrow> process lower upper key nlp headers body)"

subsection \<open>Example data\<close>

text \<open>
  A document with every annotation for \<^verbatim>\<open>"Dogs bark. Run"\<close> (two sentences, each with a
  root that is its own head; the last token has a lemma with a capital and a tag in small
  letters), a document for the same text with tokens only, and two pipelines that know
  this text and the empty one and raise on anything else.
\<close>

definition example_text :: string where
  "example_text = ''Dogs bark. Run''"

definition example_doc :: Doc where
  "example_doc =
     \<lparr>doc_tokens =
        [\<lparr>t_text = ''Dogs'', t_lemma = ''dog'', t_pos = ''NOUN'', t_dep = ''nsubj'', t_head = Some 1\<rparr>,
         \<lparr>t_text = ''bark'', t_lemma = ''bark'', t_pos = ''VERB'', t_dep = ''ROOT'', t_head = Some 1\<rparr>,
         \<lparr>t_text = ''.'', t_lemma = ''.'', t_pos = ''PUNCT'', t_dep = ''punct'', t_head = Some 1\<rparr>,
         \<lparr>t_text = ''Run'', t_lemma = ''Run'', t_pos = ''verb'', t_dep = ''ROOT'', t_head = Some 3\<rparr>],
      doc_sents = [\<lparr>start_char = 0, end_char = 10\<rparr>, \<lparr>start_char = 11, end_char = 14\<rparr>],
      has_annotation_SENT_START = True\<rparr>"

definition fallback_doc :: Doc where
  "fallback_doc =
     \<lparr>doc_tokens =
        [\<lparr>t_text = ''Dogs'', t_lemma = '''', t_pos = '''', t_dep = '''', t_head = Some 0\<rparr>,
         \<lparr>t_text = ''bark'', t_lemma = '''', t_pos = '''', t_dep = '''', t_head = Some 1\<rparr>,
         \<lparr>t_text = ''.'', t_lemma = '''', t_pos = '''', t_dep = '''', t_head = Some 2\<rparr>,
         \<lparr>t_text = ''Run'', t_lemma = '''', t_pos = '''', t_dep = '''', t_head = Some 3\<rparr>],
      doc_sents = [],
      has_annotation_SENT_START = False\<rparr>"

definition empty_doc :: Doc where
  "empty_doc = \<lparr>doc_tokens = [], doc_sents = [], has_annotation_SENT_START = False\<rparr>"

definition example_nlp :: "string \<Rightarrow> Doc option" where
  "example_nlp s =
     (if s = example_text then Some example_doc
      else if s = [] then Some empty_doc
      else None)"

definition fallback_nlp :: "string \<Rightarrow> Doc option" where
  "fallback_nlp s =
     (if s = example_text then Some fallback_doc
      else if s = [] then Some empty_doc
      else None)"

definition example_body :: ProcessBody where
  "example_body =
     \<lparr>body_text = example_text, wantTokens = Some True, wantSents = Some True,
      wantDeps = Some True\<rparr>"

text \<open>Header sets: none at all, and the single header \<^verbatim>\<open>x-internal-key\<close>.\<close>

definition no_headers :: "string \<rightharpoonup> string" where
  "no_headers = Map.empty"

definition key_header :: "string \<Rightarrow> (string \<rightharpoonup> string)" where
  "key_header v = [''x-internal-key'' \<mapsto> v]"

text \<open>A JSON body that gives only \<^verbatim>\<open>text\<close>, and one that gives nothing.\<close>

definition example_json :: json_body where
  "example_json =
     \<lparr>json_text = Given example_text, json_wantTokens = Absent, json_wantSents = Absent,
      json_wantDeps = Absent\<rparr>"

definition empty_json :: json_body where
  "empty_json =
     \<lparr>json_text = Absent, json_wantTokens = Absent, json_wantSents = Absent,
      json_wantDeps = Absent\<rparr>"

text \<open>A body with every flag off, and a body with every flag \<^verbatim>\<open>null\<close>.\<close>

definition quiet_body :: ProcessBody where
  "quiet_body =
     \<lparr>body_text = example_text, wantTokens = Some False, wantSents = Some False,
      wantDeps = Some False\<rparr>"

definition null_json :: json_body where
  "null_json =
     \<lparr>json_text = Given example_text, json_wantTokens = Null, json_wantSents = Null,
      json_wantDeps = Null\<rparr>"

definition null_body :: ProcessBody where
  "null_body =
     \<lparr>body_text = example_text, wantTokens = None, wantSents = None, wantDeps = None\<rparr>"

text \<open>An environment without \<^verbatim>\<open>SPACY_INTERNAL_KEY\<close>, and one that sets it to the empty string.\<close>

definition unset_environ :: "string \<rightharpoonup> string" where
  "unset_environ = Map.empty"

definition blank_environ :: "string \<rightharpoonup> string" where
  "blank_environ = [''SPACY_INTERNAL_KEY'' \<mapsto> '''']"

text \<open>
  A pair of case mappings for the examples: on strings of ASCII characters, where the
  letters \<^verbatim>\<open>A\<close> to \<^verbatim>\<open>Z\<close> (codes 65 to 90) and \<^verbatim>\<open>a\<close> to \<^verbatim>\<open>z\<close> (codes 97 to 122) are
  mapped onto each other and every other character is kept, as
  \<^verbatim>\<open>str.lower\<close> and \<^verbatim>\<open>str.upper\<close> do on such strings.
\<close>

definition ascii_lower_char :: "char \<Rightarrow> char" where
  "ascii_lower_char c =
     (let n = (of_char c :: nat) in if 65 \<le> n \<and> n \<le> 90 then char_of (n + 32) else c)"

definition ascii_upper_char :: "char \<Rightarrow> char" where
  "ascii_upper_char c =
     (let n = (of_char c :: nat) in if 97 \<le> n \<and> n \<le> 122 then char_of (n - 32) else c)"

definition ascii_lower :: "string \<Rightarrow> string" where
  "ascii_lower s = map ascii_lower_char s"

definition ascii_upper :: "string \<Rightarrow> string" where
  "ascii_upper s = map ascii_upper_char s"

section \<open>Properties\<close>

subsection \<open>Helper facts\<close>

subsubsection \<open>The handler\<close>

lemma truthy_simps:
  "truthy (Some b) = b" "truthy None = False"
  by (simp_all add: truthy_def)

lemma respond_simps:
  "tokens (respond lower upper doc body) = tokens_of lower upper doc body"
  "sents (respond lower upper doc body) = sents_of doc body"
  "deps (respond lower upper doc body) = deps_of doc body"
  "sarcasm (respond lower upper doc body) = \<lparr>present = False, sarcasm_score = 0\<rparr>"
  "context_field (respond lower upper doc body) = \<lparr>label = ''general'', context_score = 1 / 10\<rparr>"
  "phraseEdges (respond lower upper doc body) = \<lparr>hits = []\<rparr>"
  by (simp_all add: respond_def)

lemma process_authorized:
  "key = [] \<or> headers ''x-internal-key'' = Some key \<Longrightarrow>
   process lower upper key nlp headers body =
     ([str_or (body_text body) ''''],
      case nlp (str_or (body_text body) '''') of
        None \<Rightarrow> Inl PipelineError
      | Some doc \<Rightarrow> Inr (respond lower upper doc body))"
  by (auto simp: process_def Let_def split: option.splits)

lemma process_authorized_Some:
  assumes "key = [] \<or> headers ''x-internal-key'' = Some key"
    and "nlp (str_or (body_text body) '''') = Some doc"
  shows "process lower upper key nlp headers body = ([str_or (body_text body) ''''], Inr (respond lower upper doc body))"
  using assms by (simp add: process_authorized)

lemma process_no_key:
  "process lower upper [] nlp headers body =
     ([str_or (body_text body) ''''],
      case nlp (str_or (body_text body) '''') of
        None \<Rightarrow> Inl PipelineError
      | Some doc \<Rightarrow> Inr (respond lower upper doc body))"
  by (simp add: process_authorized)

lemma process_Inr:
  "snd (process lower upper key nlp headers body) = Inr r \<Longrightarrow>
   \<exists>doc. nlp (str_or (body_text body) '''') = Some doc \<and> r = respond lower upper doc body"
  by (auto simp: process_def Let_def split: option.splits if_splits)

lemma process_key_gate:
  assumes "key \<noteq> []"
  shows "(headers ''x-internal-key'' \<noteq> Some key \<longrightarrow>
            process lower upper key nlp headers body
              = ([], Inl (HTTPException 401 ''unauthorized'')))
       \<and> (headers ''x-internal-key'' = Some key \<longrightarrow>
            process lower upper key nlp headers body =
              ([str_or (body_text body) ''''],
               case nlp (str_or (body_text body) '''') of
                 None \<Rightarrow> Inl PipelineError
               | Some doc \<Rightarrow> Inr (respond lower upper doc body)))"
  using assms by (auto simp: process_def Let_def split: option.splits)

lemma INTERNAL_KEY_unset:
  "environ ''SPACY_INTERNAL_KEY'' = None \<or> environ ''SPACY_INTERNAL_KEY'' = Some [] \<Longrightarrow>
   INTERNAL_KEY environ = []"
  by (auto simp: INTERNAL_KEY_def getenv_def)

subsubsection \<open>The comprehensions\<close>

lemma length_tokens_of:
  "truthy (wantTokens body) \<Longrightarrow> length (tokens_of lower upper doc body) = length (doc_tokens doc)"
  by (simp add: tokens_of_def)

lemma length_deps_of:
  "truthy (wantDeps body) \<Longrightarrow> length (deps_of doc body) = length (doc_tokens doc)"
  by (simp add: deps_of_def)

lemma tokens_of_length_le:
  "k < length (tokens_of lower upper doc body) \<Longrightarrow> truthy (wantTokens body) \<and> k < length (doc_tokens doc)"
  by (auto simp: tokens_of_def split: if_splits)

lemma tokens_of_indices:
  "truthy (wantTokens body) \<Longrightarrow> map tr_i (tokens_of lower upper doc body) = [0..<length (doc_tokens doc)]"
proof -
  assume "truthy (wantTokens body)"
  then have "map tr_i (tokens_of lower upper doc body) = map fst (enumerate 0 (doc_tokens doc))"
    by (simp add: tokens_of_def case_prod_beta comp_def)
  then show ?thesis
    by (simp add: enumerate_eq_zip)
qed

lemma deps_of_indices:
  "truthy (wantDeps body) \<Longrightarrow> map edge_i (deps_of doc body) = [0..<length (doc_tokens doc)]"
proof -
  assume "truthy (wantDeps body)"
  then have "map edge_i (deps_of doc body) = map fst (enumerate 0 (doc_tokens doc))"
    by (simp add: deps_of_def case_prod_beta comp_def)
  then show ?thesis
    by (simp add: enumerate_eq_zip)
qed

lemma tokens_of_nth:
  assumes "truthy (wantTokens body)" and "k < length (doc_tokens doc)"
  shows "tokens_of lower upper doc body ! k =
           \<lparr>tr_text = t_text (doc_tokens doc ! k),
            tr_lemma = lower (str_or (t_lemma (doc_tokens doc ! k)) (t_text (doc_tokens doc ! k))),
            tr_pos = upper (str_or (t_pos (doc_tokens doc ! k)) ''X''),
            tr_i = k\<rparr>"
  using assms by (simp add: tokens_of_def nth_enumerate_eq)

lemma deps_of_nth:
  assumes "truthy (wantDeps body)" and "k < length (doc_tokens doc)"
  shows "deps_of doc body ! k =
           \<lparr>edge_i = k,
            edge_head = t_head (doc_tokens doc ! k),
            edge_dep = t_dep (doc_tokens doc ! k)\<rparr>"
  using assms by (simp add: deps_of_def nth_enumerate_eq split: option.splits)

subsubsection \<open>The example case mappings\<close>

lemma ascii_lower_char_idem: "ascii_lower_char (ascii_lower_char c) = ascii_lower_char c"
  by (simp add: ascii_lower_char_def Let_def)

lemma ascii_upper_char_letter:
  assumes "97 \<le> (of_char c :: nat)" and "(of_char c :: nat) \<le> 122"
  shows "(of_char (ascii_upper_char c) :: nat) = of_char c - 32"
proof -
  have "(of_char c - 32 :: nat) mod 256 = of_char c - 32"
    using assms by simp
  with assms show ?thesis
    by (simp add: ascii_upper_char_def Let_def)
qed

lemma ascii_upper_char_other:
  "\<not> (97 \<le> (of_char c :: nat) \<and> (of_char c :: nat) \<le> 122) \<Longrightarrow> ascii_upper_char c = c"
  by (auto simp: ascii_upper_char_def Let_def)

lemma ascii_upper_char_idem: "ascii_upper_char (ascii_upper_char c) = ascii_upper_char c"
proof (cases "97 \<le> (of_char c :: nat) \<and> (of_char c :: nat) \<le> 122")
  case True
  then have "(of_char (ascii_upper_char c) :: nat) = of_char c - 32"
    by (simp add: ascii_upper_char_letter)
  moreover have "(of_char c :: nat) - 32 < 97"
    using True by arith
  ultimately have "\<not> (97 \<le> (of_char (ascii_upper_char c) :: nat)
      \<and> (of_char (ascii_upper_char c) :: nat) \<le> 122)"
    by simp
  then show ?thesis
    by (rule ascii_upper_char_other)
next
  case False
  then have "ascii_upper_char c = c"
    by (rule ascii_upper_char_other)
  then show ?thesis
    by simp
qed

lemma ascii_lower_idem: "ascii_lower (ascii_lower s) = ascii_lower s"
  by (simp add: ascii_lower_def ascii_lower_char_idem)

lemma ascii_upper_idem: "ascii_upper (ascii_upper s) = ascii_upper s"
  by (simp add: ascii_upper_def ascii_upper_char_idem)

lemma ascii_upper_X: "ascii_upper ''X'' = ''X''"
  by (simp add: ascii_upper_def ascii_upper_char_def)

subsubsection \<open>Validation\<close>

lemma optional_bool_simps:
  "optional_bool d Absent = Some d" "optional_bool d Null = None"
  "optional_bool d (Given b) = Some b"
  by (simp_all add: optional_bool_def)

lemma validate_body_Given:
  "json_text j = Given s \<Longrightarrow>
   validate_body j =
     Inr \<lparr>body_text = s,
          wantTokens = optional_bool True (json_wantTokens j),
          wantSents = optional_bool True (json_wantSents j),
          wantDeps = optional_bool True (json_wantDeps j)\<rparr>"
  by (simp add: validate_body_def required_str_def)

lemma validate_body_Inr:
  "validate_body j = Inr body \<Longrightarrow>
   json_text j = Given (body_text body)
   \<and> wantTokens body = optional_bool True (json_wantTokens j)
   \<and> wantSents body = optional_bool True (json_wantSents j)
   \<and> wantDeps body = optional_bool True (json_wantDeps j)"
  by (auto simp: validate_body_def required_str_def split: field.splits)

subsubsection \<open>The example data\<close>

lemma example_nlp_text: "example_nlp (str_or (body_text example_body) '''') = Some example_doc"
  by (simp add: example_nlp_def example_body_def str_or_def example_text_def)

lemma fallback_nlp_text: "fallback_nlp (str_or (body_text example_body) '''') = Some fallback_doc"
  by (simp add: fallback_nlp_def example_body_def str_or_def example_text_def)

lemma example_process:
  "snd (process ascii_lower ascii_upper [] example_nlp no_headers example_body) = Inr (respond ascii_lower ascii_upper example_doc example_body)"
  using example_nlp_text by (simp add: process_authorized_Some)

lemma fallback_process:
  "snd (process ascii_lower ascii_upper [] fallback_nlp no_headers example_body) = Inr (respond ascii_lower ascii_upper fallback_doc example_body)"
  using fallback_nlp_text by (simp add: process_authorized_Some)

lemma example_json_valid: "validate_body example_json = Inr example_body"
  by (simp add: validate_body_def required_str_def optional_bool_def example_json_def
      example_body_def)

lemma example_lengths:
  "length (doc_tokens example_doc) = 4" "length (doc_tokens fallback_doc) = 4"
  by (simp_all add: example_doc_def fallback_doc_def)

lemma example_flags:
  "wantTokens example_body = Some True" "wantSents example_body = Some True"
  "wantDeps example_body = Some True"
  by (simp_all add: example_body_def)

lemma example_token_3:
  "doc_tokens example_doc ! 3 =
     \<lparr>t_text = ''Run'', t_lemma = ''Run'', t_pos = ''verb'', t_dep = ''ROOT'', t_head = Some 3\<rparr>"
  by (simp add: example_doc_def)

lemma example_token_1:
  "doc_tokens example_doc ! 1 =
     \<lparr>t_text = ''bark'', t_lemma = ''bark'', t_pos = ''VERB'', t_dep = ''ROOT'', t_head = Some 1\<rparr>"
  by (simp add: example_doc_def)

lemma example_token_0:
  "doc_tokens example_doc ! 0 =
     \<lparr>t_text = ''Dogs'', t_lemma = ''dog'', t_pos = ''NOUN'', t_dep = ''nsubj'', t_head = Some 1\<rparr>"
  by (simp add: example_doc_def)

lemma fallback_token_0:
  "doc_tokens fallback_doc ! 0 =
     \<lparr>t_text = ''Dogs'', t_lemma = '''', t_pos = '''', t_dep = '''', t_head = Some 0\<rparr>"
  by (simp add: fallback_doc_def)

lemma example_case_maps:
  "ascii_lower ''Run'' = ''run''" "ascii_upper ''verb'' = ''VERB''" "ascii_lower ''Dogs'' = ''dogs''"
  "ascii_lower ''run'' = ''run''" "ascii_upper ''VERB'' = ''VERB''"
  by code_simp+

subsection \<open>Authorization\<close>

text \<open>
  Claim C1 says that every request made without the configured non-empty secret fails
  with the 401 error. It does not hold for a request whose body does not fit
  \<^verbatim>\<open>ProcessBody\<close>: the body is validated before the handler is called, so with the
  secret \<^verbatim>\<open>s3cret\<close>, no header and the body \<^verbatim>\<open>{}\<close> the request ends in the
  validation error and the key is never looked at.
\<close>

theorem unauthorized_counterexample:
  "post_process ascii_lower ascii_upper ''s3cret'' example_nlp no_headers empty_json
     = ([], Inl RequestValidationError)
   \<and> snd (post_process ascii_lower ascii_upper ''s3cret'' example_nlp no_headers empty_json)
       \<noteq> Inl (HTTPException 401 ''unauthorized'')"
  by (simp add: post_process_def validate_body_def required_str_def empty_json_def)

text \<open>
  Claim C1, amended. For every request whose body fits \<^verbatim>\<open>ProcessBody\<close>: when the
  configured secret is a non-empty string and the \<^verbatim>\<open>x-internal-key\<close> header is missing
  or differs from it, the request fails with \<^verbatim>\<open>HTTPException(401, "unauthorized")\<close>
  and no text is handed to the pipeline, so that no tokens, sentences or edges are
  computed; when the header equals the secret the handler goes on, parses
  \<^verbatim>\<open>body.text or ""\<close> once and returns the dictionary built from the parse (or fails
  with the pipeline's own exception).
\<close>

theorem internal_key_checked_on_valid_body:
  assumes "key \<noteq> []" and "validate_body j = Inr body"
  shows "(headers ''x-internal-key'' \<noteq> Some key \<longrightarrow>
            post_process lower upper key nlp headers j
              = ([], Inl (HTTPException 401 ''unauthorized'')))
       \<and> (headers ''x-internal-key'' = Some key \<longrightarrow>
            post_process lower upper key nlp headers j =
              ([str_or (body_text body) ''''],
               case nlp (str_or (body_text body) '''') of
                 None \<Rightarrow> Inl PipelineError
               | Some doc \<Rightarrow> Inr (respond lower upper doc body)))"
proof -
  have "post_process lower upper key nlp headers j = process lower upper key nlp headers body"
    using assms(2) by (simp add: post_process_def)
  with process_key_gate [OF assms(1), of headers lower upper nlp body] show ?thesis
    by simp
qed

theorem internal_key_checked_on_valid_body_witness:
  "''s3cret'' \<noteq> [] \<and> validate_body example_json = Inr example_body
   \<and> post_process ascii_lower ascii_upper ''s3cret'' example_nlp no_headers example_json
       = ([], Inl (HTTPException 401 ''unauthorized''))
   \<and> post_process ascii_lower ascii_upper ''s3cret'' example_nlp (key_header ''guess'')
         example_json
       = ([], Inl (HTTPException 401 ''unauthorized''))
   \<and> post_process ascii_lower ascii_upper ''s3cret'' example_nlp (key_header ''s3cret'')
         example_json
       = ([example_text],
          Inr (respond ascii_lower ascii_upper example_doc example_body))"
  using internal_key_checked_on_valid_body
      [where key = "''s3cret''" and j = example_json and body = example_body
        and headers = no_headers and nlp = example_nlp and lower = ascii_lower
        and upper = ascii_upper]
    internal_key_checked_on_valid_body
      [where key = "''s3cret''" and j = example_json and body = example_body
        and headers = "key_header ''guess''" and nlp = example_nlp and lower = ascii_lower
        and upper = ascii_upper]
    internal_key_checked_on_valid_body
      [where key = "''s3cret''" and j = example_json and body = example_body
        and headers = "key_header ''s3cret''" and nlp = example_nlp
        and lower = ascii_lower and upper = ascii_upper]
    example_json_valid
  by (simp add: no_headers_def key_header_def example_nlp_def example_body_def
      example_text_def str_or_def)

text \<open>
  Claim C8. When \<^verbatim>\<open>SPACY_INTERNAL_KEY\<close> is unset or empty, the outcome of a request
  does not depend on its headers: two requests with the same body get the same result
  whatever their \<^verbatim>\<open>x-internal-key\<close> header is, and that result is never the
  unauthorized error.
\<close>

theorem no_secret_ignores_header:
  assumes "environ ''SPACY_INTERNAL_KEY'' = None \<or> environ ''SPACY_INTERNAL_KEY'' = Some []"
  shows "post_process lower upper (INTERNAL_KEY environ) nlp headers1 j
           = post_process lower upper (INTERNAL_KEY environ) nlp headers2 j
       \<and> snd (post_process lower upper (INTERNAL_KEY environ) nlp headers1 j)
           \<noteq> Inl (HTTPException 401 ''unauthorized'')"
proof -
  have k: "INTERNAL_KEY environ = []"
    using assms by (rule INTERNAL_KEY_unset)
  have "post_process lower upper [] nlp headers1 j = post_process lower upper [] nlp headers2 j"
    by (simp add: post_process_def process_no_key split: sum.splits)
  moreover have "snd (post_process lower upper [] nlp headers1 j) \<noteq> Inl (HTTPException 401 ''unauthorized'')"
    by (auto simp: post_process_def process_no_key validate_body_def required_str_def
        split: sum.splits field.splits option.splits)
  ultimately show ?thesis
    by (simp add: k)
qed

theorem no_secret_ignores_header_witness:
  "post_process ascii_lower ascii_upper (INTERNAL_KEY unset_environ) example_nlp no_headers example_json
     = ([example_text], Inr (respond ascii_lower ascii_upper example_doc example_body))
   \<and> post_process ascii_lower ascii_upper (INTERNAL_KEY unset_environ) example_nlp (key_header ''guess'') example_json
     = ([example_text], Inr (respond ascii_lower ascii_upper example_doc example_body))
   \<and> post_process ascii_lower ascii_upper (INTERNAL_KEY blank_environ) example_nlp (key_header ''guess'') example_json
     = ([example_text], Inr (respond ascii_lower ascii_upper example_doc example_body))"
proof -
  have u: "unset_environ ''SPACY_INTERNAL_KEY'' = None \<or> unset_environ ''SPACY_INTERNAL_KEY'' = Some []"
    by (simp add: unset_environ_def)
  have b: "blank_environ ''SPACY_INTERNAL_KEY'' = None \<or> blank_environ ''SPACY_INTERNAL_KEY'' = Some []"
    by (simp add: blank_environ_def)
  have ku: "INTERNAL_KEY unset_environ = []"
    using u by (rule INTERNAL_KEY_unset [of unset_environ])
  have kb: "INTERNAL_KEY blank_environ = []"
    using b by (rule INTERNAL_KEY_unset [of blank_environ])
  have x: "post_process ascii_lower ascii_upper (INTERNAL_KEY unset_environ) example_nlp no_headers example_json
     = ([example_text], Inr (respond ascii_lower ascii_upper example_doc example_body))"
    using example_nlp_text
    by (simp add: ku post_process_def example_json_valid
        process_no_key example_body_def str_or_def example_text_def)
  have y: "post_process ascii_lower ascii_upper (INTERNAL_KEY blank_environ) example_nlp no_headers example_json
     = ([example_text], Inr (respond ascii_lower ascii_upper example_doc example_body))"
    using example_nlp_text
    by (simp add: kb post_process_def example_json_valid
        process_no_key example_body_def str_or_def example_text_def)
  from no_secret_ignores_header
      [of unset_environ ascii_lower ascii_upper example_nlp "key_header ''guess''" example_json
        no_headers]
    no_secret_ignores_header
      [of blank_environ ascii_lower ascii_upper example_nlp "key_header ''guess''" example_json
        no_headers]
    u b x y
  show ?thesis
    by simp
qed

subsection \<open>Validation of the body\<close>

text \<open>
  Claim C2 says that a request whose body has no \<^verbatim>\<open>text\<close> field is treated as if
  \<^verbatim>\<open>text\<close> were the empty string and gets a normal response. It does not hold:
  \<^verbatim>\<open>text: str\<close> is a required field of \<^verbatim>\<open>ProcessBody\<close>, so a body without it is
  rejected before the handler is called, while the same body with \<^verbatim>\<open>"text": ""\<close> is
  parsed and answered.
\<close>

theorem missing_text_counterexample:
  "validate_body empty_json = Inl RequestValidationError
   \<and> post_process ascii_lower ascii_upper [] example_nlp no_headers empty_json = ([], Inl RequestValidationError)
   \<and> post_process ascii_lower ascii_upper [] example_nlp no_headers (empty_json\<lparr>json_text := Given []\<rparr>)
       = ([[]], Inr (respond ascii_lower ascii_upper empty_doc
                      \<lparr>body_text = [], wantTokens = Some True, wantSents = Some True,
                       wantDeps = Some True\<rparr>))
   \<and> post_process ascii_lower ascii_upper [] example_nlp no_headers empty_json
       \<noteq> post_process ascii_lower ascii_upper [] example_nlp no_headers (empty_json\<lparr>json_text := Given []\<rparr>)"
  by (simp add: post_process_def validate_body_def required_str_def optional_bool_def
      empty_json_def process_no_key str_or_def example_nlp_def example_text_def)

text \<open>
  Claim C2, amended. A request whose body has no \<^verbatim>\<open>text\<close> field is rejected by the
  validation of the body: the handler is not called, nothing is parsed and no response
  dictionary is built. Only a \<^verbatim>\<open>text\<close> that is present can be empty; then
  \<^verbatim>\<open>body.text or ""\<close> is the empty string, and an authorized request whose parse
  returns gets the normal response built from the parse of the empty string.
\<close>

theorem missing_text_is_rejected:
  "(json_text j = Absent \<longrightarrow>
      post_process lower upper key nlp headers j = ([], Inl RequestValidationError))
   \<and> (json_text j = Given [] \<longrightarrow> (key = [] \<or> headers ''x-internal-key'' = Some key) \<longrightarrow>
        nlp [] = Some doc \<longrightarrow>
        (\<exists>body. validate_body j = Inr body \<and> body_text body = []
           \<and> post_process lower upper key nlp headers j = ([[]], Inr (respond lower upper doc body))))"
proof (intro conjI impI)
  assume "json_text j = Absent"
  then show "post_process lower upper key nlp headers j = ([], Inl RequestValidationError)"
    by (simp add: post_process_def validate_body_def required_str_def)
next
  assume t: "json_text j = Given []" and a: "key = [] \<or> headers ''x-internal-key'' = Some key"
    and n: "nlp [] = Some doc"
  let ?body = "\<lparr>body_text = [], wantTokens = optional_bool True (json_wantTokens j),
                wantSents = optional_bool True (json_wantSents j),
                wantDeps = optional_bool True (json_wantDeps j)\<rparr>"
  have v: "validate_body j = Inr ?body"
    using t by (rule validate_body_Given)
  have s: "str_or (body_text ?body) '''' = []"
    by (simp add: str_or_def)
  have "process lower upper key nlp headers ?body = ([[]], Inr (respond lower upper doc ?body))"
    using process_authorized_Some [of key headers nlp ?body doc lower upper] a n s by simp
  then have "post_process lower upper key nlp headers j = ([[]], Inr (respond lower upper doc ?body))"
    by (simp add: post_process_def v)
  with v show "\<exists>body. validate_body j = Inr body \<and> body_text body = []
           \<and> post_process lower upper key nlp headers j = ([[]], Inr (respond lower upper doc body))"
    by auto
qed

theorem missing_text_is_rejected_witness:
  "json_text empty_json = Absent
   \<and> post_process ascii_lower ascii_upper ''s3cret'' example_nlp (key_header ''s3cret'') empty_json
       = ([], Inl RequestValidationError)
   \<and> json_text (empty_json\<lparr>json_text := Given []\<rparr>) = Given []
   \<and> example_nlp [] = Some empty_doc
   \<and> snd (post_process ascii_lower ascii_upper ''s3cret'' example_nlp (key_header ''s3cret'')
            (empty_json\<lparr>json_text := Given []\<rparr>))
       = Inr (respond ascii_lower ascii_upper empty_doc
               \<lparr>body_text = [], wantTokens = Some True, wantSents = Some True,
                wantDeps = Some True\<rparr>)"
proof -
  have a: "json_text empty_json = Absent"
    by (simp add: empty_json_def)
  have g: "json_text (empty_json\<lparr>json_text := Given []\<rparr>) = Given []"
    by simp
  have n: "example_nlp [] = Some empty_doc"
    by (simp add: example_nlp_def example_text_def)
  have h: "key_header ''s3cret'' ''x-internal-key'' = Some ''s3cret''"
    by (simp add: key_header_def)
  have v: "validate_body (empty_json\<lparr>json_text := Given []\<rparr>)
        = Inr \<lparr>body_text = [], wantTokens = Some True, wantSents = Some True,
               wantDeps = Some True\<rparr>"
    by (simp add: validate_body_def required_str_def optional_bool_def empty_json_def)
  from missing_text_is_rejected
      [where j = empty_json and key = "''s3cret''" and nlp = example_nlp
        and headers = "key_header ''s3cret''" and doc = empty_doc and lower = ascii_lower
        and upper = ascii_upper]
    missing_text_is_rejected
      [where j = "empty_json\<lparr>json_text := Given []\<rparr>" and key = "''s3cret''"
        and nlp = example_nlp and headers = "key_header ''s3cret''" and doc = empty_doc
        and lower = ascii_lower and upper = ascii_upper]
    a g n h v
  show ?thesis
    by auto
qed

text \<open>
  Claim C9. A flag that the body sets to \<^verbatim>\<open>null\<close> reaches the handler as \<^verbatim>\<open>None\<close>,
  which counts as false: the corresponding sequence of the response is empty. Only an
  absent flag takes the default: its sequence is the one computed for \<^verbatim>\<open>true\<close>.
\<close>

theorem null_flag_counts_as_false:
  assumes "validate_body j = Inr body"
    and "key = [] \<or> headers ''x-internal-key'' = Some key"
    and "nlp (str_or (body_text body) '''') = Some doc"
  shows "snd (post_process lower upper key nlp headers j) = Inr (respond lower upper doc body)
       \<and> (json_wantTokens j = Null \<longrightarrow> tokens (respond lower upper doc body) = [])
       \<and> (json_wantSents j = Null \<longrightarrow> sents (respond lower upper doc body) = [])
       \<and> (json_wantDeps j = Null \<longrightarrow> deps (respond lower upper doc body) = [])
       \<and> (json_wantTokens j = Absent \<longrightarrow>
            tokens (respond lower upper doc body) = tokens (respond lower upper doc (body\<lparr>wantTokens := Some True\<rparr>)))
       \<and> (json_wantSents j = Absent \<longrightarrow>
            sents (respond lower upper doc body) = sents (respond lower upper doc (body\<lparr>wantSents := Some True\<rparr>)))
       \<and> (json_wantDeps j = Absent \<longrightarrow>
            deps (respond lower upper doc body) = deps (respond lower upper doc (body\<lparr>wantDeps := Some True\<rparr>)))"
proof -
  note v = validate_body_Inr [OF assms(1)]
  have "snd (post_process lower upper key nlp headers j) = Inr (respond lower upper doc body)"
    using assms by (simp add: post_process_def process_authorized_Some)
  moreover have "json_wantTokens j = Null \<longrightarrow> tokens (respond lower upper doc body) = []"
    using v by (simp add: respond_simps tokens_of_def optional_bool_simps truthy_simps)
  moreover have "json_wantSents j = Null \<longrightarrow> sents (respond lower upper doc body) = []"
    using v by (simp add: respond_simps sents_of_def optional_bool_simps truthy_simps)
  moreover have "json_wantDeps j = Null \<longrightarrow> deps (respond lower upper doc body) = []"
    using v by (simp add: respond_simps deps_of_def optional_bool_simps truthy_simps)
  moreover have "json_wantTokens j = Absent \<longrightarrow>
      tokens (respond lower upper doc body) = tokens (respond lower upper doc (body\<lparr>wantTokens := Some True\<rparr>))"
    using v by (simp add: respond_simps tokens_of_def optional_bool_simps)
  moreover have "json_wantSents j = Absent \<longrightarrow>
      sents (respond lower upper doc body) = sents (respond lower upper doc (body\<lparr>wantSents := Some True\<rparr>))"
    using v by (simp add: respond_simps sents_of_def optional_bool_simps)
  moreover have "json_wantDeps j = Absent \<longrightarrow>
      deps (respond lower upper doc body) = deps (respond lower upper doc (body\<lparr>wantDeps := Some True\<rparr>))"
    using v by (simp add: respond_simps deps_of_def optional_bool_simps)
  ultimately show ?thesis
    by blast
qed

theorem null_flag_counts_as_false_witness:
  "validate_body null_json = Inr null_body
   \<and> snd (post_process ascii_lower ascii_upper [] example_nlp no_headers null_json) = Inr (respond ascii_lower ascii_upper example_doc null_body)
   \<and> tokens (respond ascii_lower ascii_upper example_doc null_body) = []
   \<and> sents (respond ascii_lower ascii_upper example_doc null_body) = []
   \<and> deps (respond ascii_lower ascii_upper example_doc null_body) = []
   \<and> validate_body example_json = Inr example_body
   \<and> snd (post_process ascii_lower ascii_upper [] example_nlp no_headers example_json)
       = Inr (respond ascii_lower ascii_upper example_doc example_body)
   \<and> length (tokens (respond ascii_lower ascii_upper example_doc example_body)) = 4
   \<and> length (sents (respond ascii_lower ascii_upper example_doc example_body)) = 2
   \<and> length (deps (respond ascii_lower ascii_upper example_doc example_body)) = 4"
proof -
  have v: "validate_body null_json = Inr null_body"
    by (simp add: validate_body_def required_str_def optional_bool_def null_json_def
        null_body_def)
  have n: "example_nlp (str_or (body_text null_body) '''') = Some example_doc"
    by (simp add: example_nlp_def null_body_def str_or_def example_text_def)
  have j: "json_wantTokens null_json = Null" "json_wantSents null_json = Null"
    "json_wantDeps null_json = Null"
    by (simp_all add: null_json_def)
  have a: "json_wantTokens example_json = Absent" "json_wantSents example_json = Absent"
    "json_wantDeps example_json = Absent"
    by (simp_all add: example_json_def)
  have u: "example_body\<lparr>wantTokens := Some True\<rparr> = example_body"
    "example_body\<lparr>wantSents := Some True\<rparr> = example_body"
    "example_body\<lparr>wantDeps := Some True\<rparr> = example_body"
    by (simp_all add: example_body_def)
  have l: "length (tokens (respond ascii_lower ascii_upper example_doc example_body)) = 4"
    "length (sents (respond ascii_lower ascii_upper example_doc example_body)) = 2"
    "length (deps (respond ascii_lower ascii_upper example_doc example_body)) = 4"
    by (simp_all add: respond_simps tokens_of_def sents_of_def deps_of_def example_flags
        truthy_simps example_doc_def)
  from null_flag_counts_as_false
      [where j = null_json and body = null_body and key = "[]" and headers = no_headers
        and nlp = example_nlp and doc = example_doc and lower = ascii_lower
        and upper = ascii_upper]
    null_flag_counts_as_false
      [where j = example_json and body = example_body and key = "[]"
        and headers = no_headers and nlp = example_nlp and doc = example_doc
        and lower = ascii_lower and upper = ascii_upper]
    v n j a u l example_json_valid example_nlp_text
  show ?thesis
    by simp
qed

subsection \<open>The sequences of the response\<close>

text \<open>
  Claim C3. For an authorized request with \<^verbatim>\<open>wantTokens\<close> and \<^verbatim>\<open>wantDeps\<close> true whose
  parse returns a document of \<open>n\<close> tokens, the response has as many token records as
  dependency edges, namely \<open>n\<close>, and the \<^verbatim>\<open>i\<close> fields of both sequences are
  \<open>0, 1, \<dots>, n - 1\<close> in this order.
\<close>

theorem tokens_deps_same_indices:
  assumes "key = [] \<or> headers ''x-internal-key'' = Some key"
    and "wantTokens body = Some True" and "wantDeps body = Some True"
    and "nlp (str_or (body_text body) '''') = Some doc"
  shows "snd (process lower upper key nlp headers body) = Inr (respond lower upper doc body)
       \<and> length (tokens (respond lower upper doc body)) = length (deps (respond lower upper doc body))
       \<and> length (tokens (respond lower upper doc body)) = length (doc_tokens doc)
       \<and> map tr_i (tokens (respond lower upper doc body)) = [0..<length (doc_tokens doc)]
       \<and> map edge_i (deps (respond lower upper doc body)) = [0..<length (doc_tokens doc)]"
proof -
  have t: "truthy (wantTokens body)" and d: "truthy (wantDeps body)"
    using assms(2,3) by (simp_all add: truthy_simps)
  have "snd (process lower upper key nlp headers body) = Inr (respond lower upper doc body)"
    using assms(1,4) by (simp add: process_authorized_Some)
  moreover have "length (tokens (respond lower upper doc body)) = length (doc_tokens doc)"
    by (simp add: respond_simps length_tokens_of [OF t])
  moreover have "length (deps (respond lower upper doc body)) = length (doc_tokens doc)"
    by (simp add: respond_simps length_deps_of [OF d])
  moreover have "map tr_i (tokens (respond lower upper doc body)) = [0..<length (doc_tokens doc)]"
    by (simp add: respond_simps tokens_of_indices [OF t])
  moreover have "map edge_i (deps (respond lower upper doc body)) = [0..<length (doc_tokens doc)]"
    by (simp add: respond_simps deps_of_indices [OF d])
  ultimately show ?thesis by simp
qed

theorem tokens_deps_same_indices_witness:
  "snd (process ascii_lower ascii_upper [] example_nlp no_headers example_body) = Inr (respond ascii_lower ascii_upper example_doc example_body)
   \<and> length (tokens (respond ascii_lower ascii_upper example_doc example_body)) = 4
   \<and> length (deps (respond ascii_lower ascii_upper example_doc example_body)) = 4
   \<and> map tr_i (tokens (respond ascii_lower ascii_upper example_doc example_body)) = [0, 1, 2, 3]
   \<and> map edge_i (deps (respond ascii_lower ascii_upper example_doc example_body)) = [0, 1, 2, 3]"
proof -
  have n: "length (doc_tokens example_doc) = 4"
    by (simp add: example_doc_def)
  have u: "[0..<4] = [0, 1, 2, 3::nat]"
    by (simp add: upt_rec)
  have w: "wantTokens example_body = Some True" "wantDeps example_body = Some True"
    by (simp_all add: example_body_def)
  from tokens_deps_same_indices
      [where key = "[]" and headers = no_headers and body = example_body
        and nlp = example_nlp and doc = example_doc and lower = ascii_lower
        and upper = ascii_upper]
    w example_nlp_text
  show ?thesis
    by (simp add: n u)
qed

text \<open>
  Claim C4. For an authorized request with \<^verbatim>\<open>wantSents\<close> true whose parsed document has
  no \<^verbatim>\<open>SENT_START\<close> annotation, \<^verbatim>\<open>sents\<close> is the single span from 0 to the length
  of the request text; for the empty text it is the span from 0 to 0.
\<close>

theorem single_span_without_sentence_annotation:
  assumes "key = [] \<or> headers ''x-internal-key'' = Some key"
    and "wantSents body = Some True"
    and "nlp (str_or (body_text body) '''') = Some doc"
    and "\<not> has_annotation_SENT_START doc"
  shows "snd (process lower upper key nlp headers body) = Inr (respond lower upper doc body)
       \<and> sents (respond lower upper doc body) = [\<lparr>span_start = 0, span_end = length (body_text body)\<rparr>]
       \<and> (body_text body = [] \<longrightarrow>
            sents (respond lower upper doc body) = [\<lparr>span_start = 0, span_end = 0\<rparr>])"
proof -
  have "snd (process lower upper key nlp headers body) = Inr (respond lower upper doc body)"
    using assms(1,3) by (simp add: process_authorized_Some)
  moreover have "length (str_or (body_text body) '''') = length (body_text body)"
    by (simp add: str_or_def)
  then have "sents (respond lower upper doc body) = [\<lparr>span_start = 0, span_end = length (body_text body)\<rparr>]"
    using assms(2,4) by (simp add: respond_simps sents_of_def truthy_simps)
  ultimately show ?thesis by simp
qed

theorem single_span_without_sentence_annotation_witness:
  "snd (process ascii_lower ascii_upper [] fallback_nlp no_headers example_body) = Inr (respond ascii_lower ascii_upper fallback_doc example_body)
   \<and> sents (respond ascii_lower ascii_upper fallback_doc example_body) = [\<lparr>span_start = 0, span_end = 14\<rparr>]
   \<and> snd (process ascii_lower ascii_upper [] fallback_nlp no_headers (example_body\<lparr>body_text := []\<rparr>))
       = Inr (respond ascii_lower ascii_upper empty_doc (example_body\<lparr>body_text := []\<rparr>))
   \<and> sents (respond ascii_lower ascii_upper empty_doc (example_body\<lparr>body_text := []\<rparr>))
       = [\<lparr>span_start = 0, span_end = 0\<rparr>]"
proof -
  have a: "wantSents example_body = Some True"
    by (simp add: example_body_def)
  have b: "\<not> has_annotation_SENT_START fallback_doc"
    by (simp add: fallback_doc_def)
  have c: "wantSents (example_body\<lparr>body_text := []\<rparr>) = Some True"
    by (simp add: example_body_def)
  have d: "fallback_nlp (str_or (body_text (example_body\<lparr>body_text := []\<rparr>)) '''') = Some empty_doc"
    by (simp add: fallback_nlp_def str_or_def example_text_def)
  have e: "\<not> has_annotation_SENT_START empty_doc"
    by (simp add: empty_doc_def)
  have l: "length (body_text example_body) = 14"
    by (simp add: example_body_def example_text_def)
  from single_span_without_sentence_annotation
      [where key = "[]" and headers = no_headers and body = example_body
        and nlp = fallback_nlp and doc = fallback_doc and lower = ascii_lower
        and upper = ascii_upper]
    single_span_without_sentence_annotation
      [where key = "[]" and headers = no_headers
        and body = "example_body\<lparr>body_text := []\<rparr>" and nlp = fallback_nlp
        and doc = empty_doc and lower = ascii_lower and upper = ascii_upper]
    a b c d e fallback_nlp_text
  show ?thesis
    by (simp add: l)
qed

text \<open>
  Claim C5. In every token record of every response, \<^verbatim>\<open>lemma\<close> is the lower-cased
  pipeline lemma when that lemma is non-empty, and otherwise comes from the token's raw
  text, lower-cased like every lemma; \<^verbatim>\<open>pos\<close> is the upper-cased pipeline tag when
  that tag is non-empty and otherwise \<^verbatim>\<open>"X".upper()\<close>, the literal \<^verbatim>\<open>"X"\<close>. Each field
  is a value returned by \<^verbatim>\<open>str.lower\<close> or \<^verbatim>\<open>str.upper\<close>; a string is lowercase
  (uppercase) when the case mapping leaves it unchanged, which holds of every value the
  mapping returns because the mapping is idempotent. This is stated for any case
  mappings; idempotence and \<^verbatim>\<open>"X".upper() == "X"\<close> are the only facts about Python's
  mappings that are used.
\<close>

theorem token_record_lemma_and_pos:
  assumes "snd (process lower upper key nlp headers body) = Inr r" and "k < length (tokens r)"
  shows "\<exists>doc. nlp (str_or (body_text body) '''') = Some doc \<and> k < length (doc_tokens doc)
           \<and> tr_lemma (tokens r ! k) =
               (if t_lemma (doc_tokens doc ! k) \<noteq> [] then lower (t_lemma (doc_tokens doc ! k))
                else lower (t_text (doc_tokens doc ! k)))
           \<and> tr_pos (tokens r ! k) =
               (if t_pos (doc_tokens doc ! k) \<noteq> [] then upper (t_pos (doc_tokens doc ! k))
                else upper ''X'')
           \<and> ((\<forall>s. lower (lower s) = lower s) \<longrightarrow>
                lower (tr_lemma (tokens r ! k)) = tr_lemma (tokens r ! k))
           \<and> ((\<forall>s. upper (upper s) = upper s) \<longrightarrow>
                upper (tr_pos (tokens r ! k)) = tr_pos (tokens r ! k))
           \<and> (upper ''X'' = ''X'' \<longrightarrow> t_pos (doc_tokens doc ! k) = [] \<longrightarrow>
                tr_pos (tokens r ! k) = ''X'')"
proof -
  from assms(1) obtain doc where
    doc: "nlp (str_or (body_text body) '''') = Some doc" and r: "r = respond lower upper doc body"
    using process_Inr by blast
  from assms(2) r have "k < length (tokens_of lower upper doc body)"
    by (simp add: respond_simps)
  then have t: "truthy (wantTokens body)" and k: "k < length (doc_tokens doc)"
    using tokens_of_length_le by blast+
  let ?t = "doc_tokens doc ! k"
  have rec: "tokens r ! k =
      \<lparr>tr_text = t_text ?t, tr_lemma = lower (str_or (t_lemma ?t) (t_text ?t)),
       tr_pos = upper (str_or (t_pos ?t) ''X''), tr_i = k\<rparr>"
    using r tokens_of_nth [OF t k] by (simp add: respond_simps)
  have l: "tr_lemma (tokens r ! k) =
             (if t_lemma ?t \<noteq> [] then lower (t_lemma ?t) else lower (t_text ?t))"
    by (simp add: rec str_or_def)
  have p: "tr_pos (tokens r ! k) = (if t_pos ?t \<noteq> [] then upper (t_pos ?t) else upper ''X'')"
    by (simp add: rec str_or_def)
  have li: "(\<forall>s. lower (lower s) = lower s) \<longrightarrow>
      lower (tr_lemma (tokens r ! k)) = tr_lemma (tokens r ! k)"
    by (simp add: rec)
  have pi: "(\<forall>s. upper (upper s) = upper s) \<longrightarrow>
      upper (tr_pos (tokens r ! k)) = tr_pos (tokens r ! k)"
    by (simp add: rec)
  have px: "upper ''X'' = ''X'' \<longrightarrow> t_pos ?t = [] \<longrightarrow> tr_pos (tokens r ! k) = ''X''"
    by (simp add: p)
  from doc k l p li pi px show ?thesis
    by blast
qed

theorem token_record_lemma_and_pos_witness:
  "snd (process ascii_lower ascii_upper [] example_nlp no_headers example_body)
     = Inr (respond ascii_lower ascii_upper example_doc example_body)
   \<and> 3 < length (tokens (respond ascii_lower ascii_upper example_doc example_body))
   \<and> tr_lemma (tokens (respond ascii_lower ascii_upper example_doc example_body) ! 3) = ''run''
   \<and> tr_pos (tokens (respond ascii_lower ascii_upper example_doc example_body) ! 3) = ''VERB''
   \<and> ascii_lower (tr_lemma (tokens (respond ascii_lower ascii_upper example_doc example_body) ! 3))
       = tr_lemma (tokens (respond ascii_lower ascii_upper example_doc example_body) ! 3)
   \<and> ascii_upper (tr_pos (tokens (respond ascii_lower ascii_upper example_doc example_body) ! 3))
       = tr_pos (tokens (respond ascii_lower ascii_upper example_doc example_body) ! 3)
   \<and> snd (process ascii_lower ascii_upper [] fallback_nlp no_headers example_body)
       = Inr (respond ascii_lower ascii_upper fallback_doc example_body)
   \<and> 0 < length (tokens (respond ascii_lower ascii_upper fallback_doc example_body))
   \<and> tr_lemma (tokens (respond ascii_lower ascii_upper fallback_doc example_body) ! 0) = ''dogs''
   \<and> tr_pos (tokens (respond ascii_lower ascii_upper fallback_doc example_body) ! 0) = ''X''"
proof -
  have il: "\<forall>s. ascii_lower (ascii_lower s) = ascii_lower s"
    by (simp add: ascii_lower_idem)
  have iu: "\<forall>s. ascii_upper (ascii_upper s) = ascii_upper s"
    by (simp add: ascii_upper_idem)
  have k3: "3 < length (tokens (respond ascii_lower ascii_upper example_doc example_body))"
    by (simp add: respond_simps length_tokens_of example_flags truthy_simps example_lengths)
  have k0: "0 < length (tokens (respond ascii_lower ascii_upper fallback_doc example_body))"
    by (simp add: respond_simps length_tokens_of example_flags truthy_simps example_lengths)
  from token_record_lemma_and_pos [OF example_process k3] example_nlp_text il iu
  have a: "tr_lemma (tokens (respond ascii_lower ascii_upper example_doc example_body) ! 3) = ''run''
     \<and> tr_pos (tokens (respond ascii_lower ascii_upper example_doc example_body) ! 3) = ''VERB''
     \<and> ascii_lower (tr_lemma (tokens (respond ascii_lower ascii_upper example_doc example_body) ! 3))
         = tr_lemma (tokens (respond ascii_lower ascii_upper example_doc example_body) ! 3)
     \<and> ascii_upper (tr_pos (tokens (respond ascii_lower ascii_upper example_doc example_body) ! 3))
         = tr_pos (tokens (respond ascii_lower ascii_upper example_doc example_body) ! 3)"
    by (auto simp: example_token_3 example_case_maps)
  from token_record_lemma_and_pos [OF fallback_process k0] fallback_nlp_text ascii_upper_X
  have b: "tr_lemma (tokens (respond ascii_lower ascii_upper fallback_doc example_body) ! 0) = ''dogs''
     \<and> tr_pos (tokens (respond ascii_lower ascii_upper fallback_doc example_body) ! 0) = ''X''"
    by (auto simp: fallback_token_0 example_case_maps)
  from a b k3 k0 example_process fallback_process show ?thesis
    by (simp add: example_case_maps)
qed

text \<open>
  Claim C6 says that the \<^verbatim>\<open>head\<close> of an edge is null exactly when the token has no
  governing head, a sentence root for example. It does not hold: the root of a sentence
  is its own head in the parsed document, so the handler's test \<^verbatim>\<open>t.head is not None\<close>
  succeeds and the edge carries the root's own index. In the example document the token
  at position 1 is the root of the first sentence, and its edge has \<^verbatim>\<open>head\<close> 1.
\<close>

theorem root_head_counterexample:
  "t_dep (doc_tokens example_doc ! 1) = ''ROOT''
   \<and> t_head (doc_tokens example_doc ! 1) = Some 1
   \<and> snd (process ascii_lower ascii_upper [] example_nlp no_headers example_body)
       = Inr (respond ascii_lower ascii_upper example_doc example_body)
   \<and> edge_i (deps (respond ascii_lower ascii_upper example_doc example_body) ! 1) = 1
   \<and> edge_head (deps (respond ascii_lower ascii_upper example_doc example_body) ! 1) = Some 1
   \<and> edge_head (deps (respond ascii_lower ascii_upper example_doc example_body) ! 1) \<noteq> None"
proof -
  have t: "doc_tokens example_doc ! 1 =
      \<lparr>t_text = ''bark'', t_lemma = ''bark'', t_pos = ''VERB'', t_dep = ''ROOT'',
       t_head = Some 1\<rparr>"
    by (rule example_token_1)
  have "deps_of example_doc example_body ! 1 =
      \<lparr>edge_i = 1, edge_head = t_head (doc_tokens example_doc ! 1),
       edge_dep = t_dep (doc_tokens example_doc ! 1)\<rparr>"
    by (rule deps_of_nth) (simp_all add: example_flags truthy_simps example_lengths)
  then have e: "deps (respond ascii_lower ascii_upper example_doc example_body) ! 1 =
      \<lparr>edge_i = 1, edge_head = Some 1, edge_dep = ''ROOT''\<rparr>"
    by (simp only: respond_simps t) simp
  show ?thesis
    unfolding e t using example_process by simp
qed

text \<open>
  Claim C6, amended. For an authorized request with \<^verbatim>\<open>wantDeps\<close> true, the edge of the
  token at position \<open>k\<close> has \<^verbatim>\<open>i\<close> equal to \<open>k\<close> and \<^verbatim>\<open>head\<close> equal to the index of the
  token that the parsed document gives as the token's head; \<^verbatim>\<open>head\<close> is null exactly
  when the document gives the token no head object at all. A token that no other token
  governs is its own head in the document, so its edge carries the token's own index,
  and in a document where every token has a head object no edge has a null
  \<^verbatim>\<open>head\<close>.
\<close>

theorem dependency_edge_head_index:
  assumes "key = [] \<or> headers ''x-internal-key'' = Some key"
    and "wantDeps body = Some True"
    and "nlp (str_or (body_text body) '''') = Some doc"
    and "k < length (doc_tokens doc)"
  shows "snd (process lower upper key nlp headers body) = Inr (respond lower upper doc body)
       \<and> length (deps (respond lower upper doc body)) = length (doc_tokens doc)
       \<and> edge_i (deps (respond lower upper doc body) ! k) = k
       \<and> edge_head (deps (respond lower upper doc body) ! k) = t_head (doc_tokens doc ! k)
       \<and> (edge_head (deps (respond lower upper doc body) ! k) = None
            \<longleftrightarrow> t_head (doc_tokens doc ! k) = None)
       \<and> (t_head (doc_tokens doc ! k) = Some k \<longrightarrow>
            edge_head (deps (respond lower upper doc body) ! k) = Some k)
       \<and> ((\<forall>t \<in> set (doc_tokens doc). t_head t \<noteq> None) \<longrightarrow>
            edge_head (deps (respond lower upper doc body) ! k) \<noteq> None)"
proof -
  have d: "truthy (wantDeps body)"
    using assms(2) by (simp add: truthy_simps)
  have p: "snd (process lower upper key nlp headers body) = Inr (respond lower upper doc body)"
    using assms(1,3) by (simp add: process_authorized_Some)
  have n: "length (deps (respond lower upper doc body)) = length (doc_tokens doc)"
    by (simp add: respond_simps length_deps_of [OF d])
  have e: "deps (respond lower upper doc body) ! k =
      \<lparr>edge_i = k, edge_head = t_head (doc_tokens doc ! k), edge_dep = t_dep (doc_tokens doc ! k)\<rparr>"
    by (simp add: respond_simps deps_of_nth [OF d assms(4)])
  have m: "doc_tokens doc ! k \<in> set (doc_tokens doc)"
    using assms(4) by simp
  have a: "(\<forall>t \<in> set (doc_tokens doc). t_head t \<noteq> None) \<longrightarrow>
      edge_head (deps (respond lower upper doc body) ! k) \<noteq> None"
    using m by (simp add: e)
  from p n a show ?thesis
    by (simp add: e)
qed

theorem dependency_edge_head_index_witness:
  "snd (process ascii_lower ascii_upper [] example_nlp no_headers example_body)
     = Inr (respond ascii_lower ascii_upper example_doc example_body)
   \<and> length (deps (respond ascii_lower ascii_upper example_doc example_body)) = 4
   \<and> edge_i (deps (respond ascii_lower ascii_upper example_doc example_body) ! 0) = 0
   \<and> edge_head (deps (respond ascii_lower ascii_upper example_doc example_body) ! 0) = Some 1
   \<and> edge_head (deps (respond ascii_lower ascii_upper example_doc example_body) ! 3) = Some 3
   \<and> edge_head (deps (respond ascii_lower ascii_upper example_doc example_body) ! 3) \<noteq> None
   \<and> edge_head (deps (respond ascii_lower ascii_upper fallback_doc example_body) ! 0) = Some 0"
proof -
  have h: "\<forall>t \<in> set (doc_tokens example_doc). t_head t \<noteq> None"
    by (simp add: example_doc_def)
  from dependency_edge_head_index
      [where key = "[]" and headers = no_headers and body = example_body
        and nlp = example_nlp and doc = example_doc and k = 0 and lower = ascii_lower
        and upper = ascii_upper]
    dependency_edge_head_index
      [where key = "[]" and headers = no_headers and body = example_body
        and nlp = example_nlp and doc = example_doc and k = 3 and lower = ascii_lower
        and upper = ascii_upper]
    dependency_edge_head_index
      [where key = "[]" and headers = no_headers and body = example_body
        and nlp = fallback_nlp and doc = fallback_doc and k = 0 and lower = ascii_lower
        and upper = ascii_upper]
    example_nlp_text fallback_nlp_text h
  show ?thesis
    by (simp add: example_flags example_lengths example_token_0 example_token_3
        fallback_token_0)
qed

text \<open>
  Claim C10. The \<^verbatim>\<open>dep\<close> field of an edge has no fallback: it is the token's
  \<^verbatim>\<open>dep_\<close> as the pipeline gave it, and the empty string when the pipeline gave no
  label.
\<close>

theorem dependency_edge_dep_verbatim:
  assumes "key = [] \<or> headers ''x-internal-key'' = Some key"
    and "wantDeps body = Some True"
    and "nlp (str_or (body_text body) '''') = Some doc"
    and "k < length (doc_tokens doc)"
  shows "snd (process lower upper key nlp headers body) = Inr (respond lower upper doc body)
       \<and> k < length (deps (respond lower upper doc body))
       \<and> edge_dep (deps (respond lower upper doc body) ! k) = t_dep (doc_tokens doc ! k)
       \<and> (t_dep (doc_tokens doc ! k) = [] \<longrightarrow> edge_dep (deps (respond lower upper doc body) ! k) = [])"
proof -
  have d: "truthy (wantDeps body)"
    using assms(2) by (simp add: truthy_simps)
  have "snd (process lower upper key nlp headers body) = Inr (respond lower upper doc body)"
    using assms(1,3) by (simp add: process_authorized_Some)
  moreover have "k < length (deps (respond lower upper doc body))"
    using assms(4) by (simp add: respond_simps length_deps_of [OF d])
  moreover have "edge_dep (deps (respond lower upper doc body) ! k) = t_dep (doc_tokens doc ! k)"
    by (simp add: respond_simps deps_of_nth [OF d assms(4)])
  ultimately show ?thesis by simp
qed

theorem dependency_edge_dep_verbatim_witness:
  "snd (process ascii_lower ascii_upper [] example_nlp no_headers example_body) = Inr (respond ascii_lower ascii_upper example_doc example_body)
   \<and> edge_dep (deps (respond ascii_lower ascii_upper example_doc example_body) ! 3) = ''ROOT''
   \<and> snd (process ascii_lower ascii_upper [] fallback_nlp no_headers example_body) = Inr (respond ascii_lower ascii_upper fallback_doc example_body)
   \<and> edge_dep (deps (respond ascii_lower ascii_upper fallback_doc example_body) ! 0) = []"
  using dependency_edge_dep_verbatim [where key = "[]" and headers = no_headers and body = example_body
        and nlp = example_nlp and doc = example_doc and k = 3 and lower = ascii_lower
        and upper = ascii_upper]
    dependency_edge_dep_verbatim [where key = "[]" and headers = no_headers and body = example_body
        and nlp = fallback_nlp and doc = fallback_doc and k = 0 and lower = ascii_lower
        and upper = ascii_upper]
    example_nlp_text fallback_nlp_text
  by (simp add: example_flags example_lengths example_token_3 fallback_token_0)

text \<open>
  Claim C7. For an authorized request with the three flags false, \<^verbatim>\<open>tokens\<close>,
  \<^verbatim>\<open>sents\<close> and \<^verbatim>\<open>deps\<close> of the response are empty; and every response, whatever the
  flags, carries \<^verbatim>\<open>sarcasm = {present: false, score: 0.0}\<close>,
  \<^verbatim>\<open>context = {label: "general", score: 0.1}\<close> and \<^verbatim>\<open>phraseEdges = {hits: []}\<close>.
\<close>

theorem no_flags_empty_and_placeholders_fixed:
  "(key = [] \<or> headers ''x-internal-key'' = Some key \<longrightarrow>
      wantTokens body = Some False \<longrightarrow> wantSents body = Some False \<longrightarrow>
      wantDeps body = Some False \<longrightarrow> nlp (str_or (body_text body) '''') = Some doc \<longrightarrow>
        snd (process lower upper key nlp headers body) = Inr (respond lower upper doc body)
        \<and> tokens (respond lower upper doc body) = [] \<and> sents (respond lower upper doc body) = []
        \<and> deps (respond lower upper doc body) = [])
   \<and> (snd (process lower upper key nlp headers body) = Inr r \<longrightarrow>
        sarcasm r = \<lparr>present = False, sarcasm_score = 0\<rparr>
        \<and> context_field r = \<lparr>label = ''general'', context_score = 1 / 10\<rparr>
        \<and> phraseEdges r = \<lparr>hits = []\<rparr>)"
proof (intro conjI impI)
  assume "key = [] \<or> headers ''x-internal-key'' = Some key"
    and "nlp (str_or (body_text body) '''') = Some doc"
  then show "snd (process lower upper key nlp headers body) = Inr (respond lower upper doc body)"
    by (simp add: process_authorized_Some)
next
  assume "wantTokens body = Some False"
  then show "tokens (respond lower upper doc body) = []"
    by (simp add: respond_simps tokens_of_def truthy_simps)
next
  assume "wantSents body = Some False"
  then show "sents (respond lower upper doc body) = []"
    by (simp add: respond_simps sents_of_def truthy_simps)
next
  assume "wantDeps body = Some False"
  then show "deps (respond lower upper doc body) = []"
    by (simp add: respond_simps deps_of_def truthy_simps)
next
  assume "snd (process lower upper key nlp headers body) = Inr r"
  then obtain d where "r = respond lower upper d body"
    using process_Inr by blast
  then show "sarcasm r = \<lparr>present = False, sarcasm_score = 0\<rparr>"
    and "context_field r = \<lparr>label = ''general'', context_score = 1 / 10\<rparr>"
    and "phraseEdges r = \<lparr>hits = []\<rparr>"
    by (simp_all add: respond_simps)
qed

theorem no_flags_empty_and_placeholders_fixed_witness:
  "snd (process ascii_lower ascii_upper [] example_nlp no_headers quiet_body) = Inr (respond ascii_lower ascii_upper example_doc quiet_body)
   \<and> tokens (respond ascii_lower ascii_upper example_doc quiet_body) = []
   \<and> sents (respond ascii_lower ascii_upper example_doc quiet_body) = []
   \<and> deps (respond ascii_lower ascii_upper example_doc quiet_body) = []
   \<and> sarcasm (respond ascii_lower ascii_upper example_doc quiet_body) = \<lparr>present = False, sarcasm_score = 0\<rparr>
   \<and> context_field (respond ascii_lower ascii_upper example_doc quiet_body)
       = \<lparr>label = ''general'', context_score = 1 / 10\<rparr>
   \<and> phraseEdges (respond ascii_lower ascii_upper example_doc quiet_body) = \<lparr>hits = []\<rparr>"
proof -
  have n: "example_nlp (str_or (body_text quiet_body) '''') = Some example_doc"
    by (simp add: example_nlp_def quiet_body_def str_or_def example_text_def)
  have f: "wantTokens quiet_body = Some False" "wantSents quiet_body = Some False"
    "wantDeps quiet_body = Some False"
    by (simp_all add: quiet_body_def)
  from no_flags_empty_and_placeholders_fixed
    [where key = "[]" and headers = no_headers and body = quiet_body
        and nlp = example_nlp and doc = example_doc
        and r = "respond ascii_lower ascii_upper example_doc quiet_body"
        and lower = ascii_lower and upper = ascii_upper]
    n f
  show ?thesis
    by simp
qed

end
